theory Spec2Isabelle
  imports Complex_Main "HOL-Library.Sublist"
begin

section \<open>Data model of \<open>main.py\<close>\<close>

text \<open>
  The plugin is one Python class, \<open>Plugin\<close>, with two attributes
  (\<open>openai_client\<close>, \<open>api_key\<close>) and five host-callable coroutines.  Everything the
  coroutines touch outside the object is collected in one record, \<open>world\<close>: whether
  the import at the top of the module worked (it binds the module globals \<open>AsyncOpenAI\<close>
  and \<open>Image\<close>), the settings file, the two screenshot directories, and the answers of
  the libraries and external programs (the \<open>openai\<close> constructor, Pillow, the \<open>import\<close>
  command and the remote chat-completion endpoint).  A coroutine is a function from the world before the call to
  its return value and the world after it.  Calls to \<open>decky.logger\<close> are left out: they
  return nothing and no result depends on them.
\<close>

subsection \<open>Python values read from JSON\<close>

datatype json =
    JNull
  | JBool bool
  | JNum int
  | JStr string
  | JList "json list"
  | JDict "(string \<times> json) list"

text \<open>Python truthiness, as used by \<open>if api_key and AsyncOpenAI\<close>.\<close>

fun truthy :: "json \<Rightarrow> bool" where
  "truthy JNull = False"
| "truthy (JBool b) = b"
| "truthy (JNum n) = (n \<noteq> 0)"
| "truthy (JStr s) = (s \<noteq> [])"
| "truthy (JList xs) = (xs \<noteq> [])"
| "truthy (JDict kvs) = (kvs \<noteq> [])"

text \<open>An exception, kept as the text \<open>str(e)\<close> gives.\<close>

datatype exn = Exception string

subsection \<open>The settings file\<close>

text \<open>
  What \<open>json.load\<close> makes of the text of a file: it raises, or it returns a document.
  \<open>json.dump\<close> followed by \<open>json.load\<close> is the identity on documents, so a document is
  kept parsed.  A file that was cut off, or is empty, is \<open>Garbled\<close>.
\<close>

datatype contents = Garbled | Document json

text \<open>
  \<open>settings.json\<close>: not there, or there with its text and with the permission of this
  process to open it for reading (\<open>True\<close>) or not (\<open>False\<close>).  Writing a file changes its
  text and keeps its permissions.
\<close>

datatype settings_file = Absent | Present bool contents

text \<open>
  How the file system answers the three writing steps of \<open>set_api_key\<close>:
  \<open>mkdir(parents=True, exist_ok=True)\<close> (line 44), \<open>open(settings_path, 'w')\<close> (line 46)
  and \<open>json.dump\<close> with the closing of the file (line 47).  \<open>open(..., 'w')\<close> empties
  the file, so a failure after it leaves in the file what had been written by then:
  \<open>Garbled\<close> for an empty or cut-off text.
\<close>

datatype disk = Healthy | Mkdir_fails | Open_fails | Dump_fails contents

subsection \<open>Images and screenshot directories\<close>

text \<open>
  A decoded image: its size, its Pillow mode (\<open>RGB\<close>, \<open>L\<close>, \<open>RGBA\<close>, \<open>P\<close>, ...) and a
  label standing for what it shows (resampling changes the size, not the mode or the
  label).
\<close>

record image =
  width :: nat
  height :: nat
  mode :: string
  label :: nat

text \<open>What \<open>Image.open\<close> makes of a file's bytes: an image, or an exception.\<close>

datatype payload = Garbage | Picture image

text \<open>A directory entry: name, \<open>st_mtime\<close>, and the bytes or the children.\<close>

datatype node =
    File string real payload
  | Dir string real "node list"

fun node_name :: "node \<Rightarrow> string" where
  "node_name (File n t c) = n"
| "node_name (Dir n t cs) = n"

fun st_mtime :: "node \<Rightarrow> real" where
  "st_mtime (File n t c) = t"
| "st_mtime (Dir n t cs) = t"

text \<open>The bytes \<open>img.save(buffer, format="JPEG", quality=q)\<close> writes, kept symbolic.\<close>

datatype jpeg = Jpeg (quality: nat) (shown: image)

text \<open>
  A Python \<open>str\<close> that is either given by its characters or is
  \<open>base64.b64encode(img_bytes).decode('utf-8')\<close> of JPEG bytes.  The latter is never the
  empty string.
\<close>

datatype pystr = Lit string | Base64 jpeg

fun nonempty :: "pystr \<Rightarrow> bool" where
  "nonempty (Lit s) = (s \<noteq> [])"
| "nonempty (Base64 j) = True"

subsection \<open>External programs\<close>

text \<open>The arguments of \<open>subprocess.run\<close> at lines 115-120.\<close>

record command =
  argv :: "string list"
  capture_output :: bool
  timeout :: nat
  display :: string

text \<open>
  What \<open>subprocess.run\<close> does: raises \<open>FileNotFoundError\<close> (no such program), raises
  \<open>TimeoutExpired\<close>, or returns a return code and the bytes of standard output.
\<close>

datatype completed = Tool_missing | Timed_out | Exited int payload

text \<open>The arguments of \<open>chat.completions.create\<close> at lines 184-188.\<close>

record request =
  model :: string
  prompt :: string
  image_url :: pystr
  max_tokens :: nat

text \<open>
  What the remote call does: raises, or returns a response whose \<open>choices\<close> are given by
  their \<open>message.content\<close> (which may be \<open>None\<close>).
\<close>

datatype response = Raises exn | Choices "string option list"

datatype client = Client json

text \<open>The calls that leave the process, in the order they are made.\<close>

datatype event =
    Path_exists "string list"
  | Subprocess_run command
  | Chat_completions_create request

subsection \<open>The world\<close>

text \<open>
  \<open>imported\<close>: lines 12-19 import \<open>AsyncOpenAI\<close>, \<open>Image\<close> and \<open>io\<close> in one \<open>try\<close>, and
  on an \<open>ImportError\<close> set both \<open>AsyncOpenAI\<close> and \<open>Image\<close> to \<open>None\<close>; so the two
  names are classes together or \<open>None\<close> together.
  \<open>rejected_keys\<close>: the keys for which the constructor \<open>AsyncOpenAI(api_key=key)\<close>
  raises.
  \<open>new_file_readable\<close>: whether a file this process creates can be opened by it for
  reading (the umask decides).
  \<open>key_floor_le\<close>: Pillow compares two keys computed in double precision when it rounds
  the size of a thumbnail; for an image of the given width and height this is whether it
  finds the key of the floor not greater than the key of the ceiling.
\<close>

record world =
  imported :: bool
  rejected_keys :: "json \<Rightarrow> bool"
  openai_client :: "client option"
  api_key :: "json option"
  settings :: settings_file
  disk :: disk
  new_file_readable :: bool
  key_floor_le :: "nat \<Rightarrow> nat \<Rightarrow> bool"
  steam_screenshots :: "node list option"
  local_screenshots :: "node list option"
  environ_DISPLAY :: "string option"
  import_tool :: completed
  endpoint :: response
  trace :: "event list"

text \<open>The two module globals, as the conditions \<open>if AsyncOpenAI\<close> and \<open>and Image\<close> read them.\<close>

definition AsyncOpenAI :: "world \<Rightarrow> bool" where
  "AsyncOpenAI w = imported w"

definition Image :: "world \<Rightarrow> bool" where
  "Image w = imported w"

text \<open>The dictionary a quest-help operation returns.\<close>

datatype result = Success string | Failure string

section \<open>Credential store\<close>

text \<open>The constructor call of lines 40 and 149.\<close>

definition AsyncOpenAI_init :: "world \<Rightarrow> json \<Rightarrow> exn + client" where
  "AsyncOpenAI_init w key =
     (if rejected_keys w key then Inl (Exception ''The api_key client option must be set'')
      else Inr (Client key))"

text \<open>
  The settings file after \<open>open(settings_path, 'w')\<close> and a write that left the given
  contents: an existing file keeps its permissions, a new one gets those of a new file.
\<close>

definition written :: "world \<Rightarrow> contents \<Rightarrow> settings_file" where
  "written w c =
     (case settings w of
        Absent \<Rightarrow> Present (new_file_readable w) c
      | Present r old \<Rightarrow> Present r c)"

text \<open>
  Lines 43-47: \<open>mkdir\<close>, \<open>open(settings_path, 'w')\<close>, which empties the file, and
  \<open>json.dump\<close> with the closing of the file.
\<close>

definition save_settings :: "json \<Rightarrow> world \<Rightarrow> (exn + unit) \<times> world" where
  "save_settings doc w =
     (case disk w of
        Mkdir_fails \<Rightarrow> (Inl (Exception ''Permission denied''), w)
      | Open_fails \<Rightarrow> (Inl (Exception ''Permission denied''), w)
      | Dump_fails left \<Rightarrow> (Inl (Exception ''No space left on device''), w\<lparr>settings := written w left\<rparr>)
      | Healthy \<Rightarrow> (Inr (), w\<lparr>settings := written w (Document doc)\<rparr>))"

text \<open>Lines 35-53.  The body of the \<open>try\<close>, then the handler.\<close>

definition set_api_key_try :: "string \<Rightarrow> world \<Rightarrow> (exn + unit) \<times> world" where
  "set_api_key_try key w =
     (let w1 = w\<lparr>api_key := Some (JStr key)\<rparr> in
      if AsyncOpenAI w1 then
        (case AsyncOpenAI_init w1 (JStr key) of
           Inl e \<Rightarrow> (Inl e, w1)
         | Inr c \<Rightarrow> save_settings (JDict [(''api_key'', JStr key)]) (w1\<lparr>openai_client := Some c\<rparr>))
      else save_settings (JDict [(''api_key'', JStr key)]) w1)"

definition set_api_key :: "string \<Rightarrow> world \<Rightarrow> bool \<times> world" where
  "set_api_key key w =
     (case set_api_key_try key w of
        (Inr u, w') \<Rightarrow> (True, w')
      | (Inl e, w') \<Rightarrow> (False, w'))"

text \<open>
  Lines 55-66.  \<open>settings.get("api_key", "")\<close> is a dictionary lookup with a default; on a
  document that is not a dictionary the attribute \<open>get\<close> does not exist and the access
  raises.
\<close>

definition dict_get :: "json \<Rightarrow> string \<Rightarrow> json \<Rightarrow> exn + json" where
  "dict_get d k dflt =
     (case d of
        JDict kvs \<Rightarrow> (case map_of kvs k of Some v \<Rightarrow> Inr v | None \<Rightarrow> Inr dflt)
      | _ \<Rightarrow> Inl (Exception ''object has no attribute get''))"

definition get_api_key_try :: "world \<Rightarrow> exn + json" where
  "get_api_key_try w =
     (case settings w of
        Absent \<Rightarrow> Inr (JStr [])
      | Present False c \<Rightarrow> Inl (Exception ''Permission denied'')
      | Present True Garbled \<Rightarrow> Inl (Exception ''Expecting value'')
      | Present True (Document d) \<Rightarrow> dict_get d ''api_key'' (JStr []))"

definition get_api_key :: "world \<Rightarrow> json" where
  "get_api_key w = (case get_api_key_try w of Inr v \<Rightarrow> v | Inl e \<Rightarrow> JStr [])"

section \<open>Screenshot locator\<close>

text \<open>
  \<open>Path.rglob("*.jpg")\<close> visits the directory and every directory below it and yields the
  entries whose name matches the pattern, that is, ends in \<open>.jpg\<close>.  A path is the list of
  its components below \<open>DECKY_USER_HOME\<close>.
\<close>

type_synonym path = "string list"

definition matches_jpg :: "string \<Rightarrow> bool" where
  "matches_jpg name = suffix ''.jpg'' name"

definition matching :: "path \<Rightarrow> node list \<Rightarrow> (path \<times> node) list" where
  "matching p ns = map (\<lambda>n. (p @ [node_name n], n)) (filter (\<lambda>n. matches_jpg (node_name n)) ns)"

fun walk :: "path \<Rightarrow> node \<Rightarrow> (path \<times> node) list"
  and walks :: "path \<Rightarrow> node list \<Rightarrow> (path \<times> node) list" where
  "walk p (File n t c) = []"
| "walk p (Dir n t cs) = matching (p @ [n]) cs @ walks (p @ [n]) cs"
| "walks p [] = []"
| "walks p (n # ns) = walk p n @ walks p ns"

definition rglob_jpg :: "path \<Rightarrow> node list \<Rightarrow> (path \<times> node) list" where
  "rglob_jpg p ns = matching p ns @ walks p ns"

text \<open>Lines 73-76: the candidate directories, \<open>None\<close> where \<open>exists()\<close> is false.\<close>

definition screenshot_paths :: "world \<Rightarrow> (path \<times> node list option) list" where
  "screenshot_paths w =
     [([''.steam'', ''steam'', ''screenshots''], steam_screenshots w),
      ([''.local'', ''share'', ''Steam'', ''screenshots''], local_screenshots w)]"

text \<open>
  Lines 78-87.  The loop state is the pair \<open>(latest_screenshot, latest_time)\<close>, which
  starts as \<open>(None, 0)\<close>.
\<close>

type_synonym latest = "(path \<times> node) option \<times> real"

definition visit :: "latest \<Rightarrow> path \<times> node \<Rightarrow> latest" where
  "visit acc f = (if st_mtime (snd f) > snd acc then (Some f, st_mtime (snd f)) else acc)"

definition scan_dir :: "latest \<Rightarrow> path \<times> node list option \<Rightarrow> latest" where
  "scan_dir acc d =
     (case snd d of
        None \<Rightarrow> acc
      | Some ns \<Rightarrow> foldl visit acc (rglob_jpg (fst d) ns))"

definition find_latest :: "world \<Rightarrow> latest" where
  "find_latest w = foldl scan_dir (None, 0) (screenshot_paths w)"

section \<open>Image normalizer\<close>

text \<open>
  \<open>Image.open\<close> on a path: a directory cannot be opened, and bytes that are no image are
  rejected.  (Pillow reads the pixels only when they are needed; a file whose pixels
  cannot be read is \<open>Garbage\<close>, and its exception is raised here, under the same
  handler.)
\<close>

definition decode :: "payload \<Rightarrow> exn + image" where
  "decode b = (case b of Garbage \<Rightarrow> Inl (Exception ''cannot identify image file'') | Picture img \<Rightarrow> Inr img)"

fun Image_open :: "node \<Rightarrow> exn + image" where
  "Image_open (File n t c) = decode c"
| "Image_open (Dir n t cs) = Inl (Exception ''Is a directory'')"

text \<open>
  \<open>img.thumbnail(max_size, Image.Resampling.LANCZOS)\<close>.  The size Pillow computes
  (\<open>preserve_aspect_ratio\<close> in \<open>Image.thumbnail\<close>):
  \<^verbatim>\<open>
  def round_aspect(number, key):
      return max(min(math.floor(number), math.ceil(number), key=key), 1)
  x, y = provided_size
  if x >= self.width and y >= self.height:
      return
  aspect = self.width / self.height
  if x / y >= aspect:
      x = round_aspect(y * aspect, key=lambda n: abs(aspect - n / y))
  else:
      y = round_aspect(x / aspect, key=lambda n: 0 if n == 0 else abs(aspect - x / n))
  \<close>
  Pillow computes in double precision.  \<open>number\<close> lies between the same two integers as
  the exact quotient, but which of the two keys is the smaller can depend on the rounding
  of the doubles: for an image of 2816 by 15 the keys of 5 and 6 are equal as real numbers
  and differ as doubles.  So \<open>min\<close> is not computed from the exact keys: whether it finds
  the key of the floor not greater than that of the ceiling, and so returns the floor, is
  the argument \<open>floor_le\<close>.  A division by a height of zero raises.
\<close>

definition round_aspect :: "real \<Rightarrow> bool \<Rightarrow> int" where
  "round_aspect number floor_le = max (if floor_le then \<lfloor>number\<rfloor> else \<lceil>number\<rceil>) 1"

definition thumbnail :: "(nat \<Rightarrow> nat \<Rightarrow> bool) \<Rightarrow> nat \<times> nat \<Rightarrow> image \<Rightarrow> exn + image" where
  "thumbnail floor_le max_size img =
     (let x = fst max_size; y = snd max_size in
      if x \<ge> width img \<and> y \<ge> height img then Inr img
      else if height img = 0 then Inl (Exception ''division by zero'')
      else
        let aspect = real (width img) / real (height img) in
        if real x / real y \<ge> aspect
        then Inr (img\<lparr>width := nat (round_aspect (real y * aspect) (floor_le (width img) (height img))),
                      height := y\<rparr>)
        else Inr (img\<lparr>width := x,
                      height := nat (round_aspect (real x / aspect) (floor_le (width img) (height img)))\<rparr>))"

text \<open>
  \<open>img.save(buffer, format="JPEG", quality=q)\<close>: Pillow writes the modes below as JPEG
  and raises \<open>OSError\<close> for every other mode (\<open>RGBA\<close>, \<open>LA\<close>, \<open>P\<close>, ...).
\<close>

definition jpeg_modes :: "string list" where
  "jpeg_modes = [''1'', ''L'', ''RGB'', ''RGBX'', ''CMYK'', ''YCbCr'']"

definition save_jpeg :: "nat \<Rightarrow> image \<Rightarrow> exn + jpeg" where
  "save_jpeg q img =
     (if mode img \<in> set jpeg_modes then Inr (Jpeg q img)
      else Inl (Exception (''cannot write mode '' @ mode img @ '' as JPEG'')))"

text \<open>
  Lines 93-100, and again lines 124-130: bound the size by 1024, save as JPEG with
  quality 85, encode the bytes in base64.
\<close>

definition normalize :: "(nat \<Rightarrow> nat \<Rightarrow> bool) \<Rightarrow> image \<Rightarrow> exn + pystr" where
  "normalize floor_le img =
     (case thumbnail floor_le (1024, 1024) img of
        Inl e \<Rightarrow> Inl e
      | Inr img' \<Rightarrow>
          (case save_jpeg 85 img' of
             Inl e \<Rightarrow> Inl e
           | Inr img_bytes \<Rightarrow> Inr (Base64 img_bytes)))"

section \<open>\<open>capture_screenshot\<close>\<close>

text \<open>
  Lines 110-135, the inner \<open>try\<close>: \<open>Some s\<close> when the body returns \<open>s\<close>, \<open>None\<close> when it
  runs to its end.
\<close>

definition import_command :: "world \<Rightarrow> command" where
  "import_command w =
     \<lparr>argv = [''import'', ''-window'', ''root'', ''-''], capture_output = True, timeout = 5,
      display = (case environ_DISPLAY w of Some d \<Rightarrow> d | None \<Rightarrow> '':0'')\<rparr>"

definition x11_try :: "world \<Rightarrow> exn + pystr option" where
  "x11_try w =
     (case import_tool w of
        Tool_missing \<Rightarrow> Inl (Exception ''No such file or directory'')
      | Timed_out \<Rightarrow> Inl (Exception ''timed out after 5 seconds'')
      | Exited returncode out \<Rightarrow>
          if returncode = 0 \<and> Image w then
            (case decode out of
               Inl e \<Rightarrow> Inl e
             | Inr img \<Rightarrow>
                 (case normalize (key_floor_le w) img of Inl e \<Rightarrow> Inl e | Inr s \<Rightarrow> Inr (Some s)))
          else Inr None)"

definition x11 :: "world \<Rightarrow> pystr option" where
  "x11 w = (case x11_try w of Inl e \<Rightarrow> None | Inr r \<Rightarrow> r)"

text \<open>
  Lines 89-103, the block under \<open>if latest_screenshot and Image\<close>: \<open>Some s\<close> when it
  returns \<open>s\<close>, \<open>None\<close> when the condition is false.  An exception of \<open>Image.open\<close>
  or of the normalizer leaves the outer \<open>try\<close>.
\<close>

definition stored_screenshot_try :: "world \<Rightarrow> exn + pystr option" where
  "stored_screenshot_try w =
     (case fst (find_latest w) of
        Some latest_screenshot \<Rightarrow>
          if Image w then
            (case Image_open (snd latest_screenshot) of
               Inl e \<Rightarrow> Inl e
             | Inr img \<Rightarrow>
                 (case normalize (key_floor_le w) img of Inl e \<Rightarrow> Inl e | Inr s \<Rightarrow> Inr (Some s)))
          else Inr None
      | None \<Rightarrow> Inr None)"

text \<open>Lines 70-137, the outer \<open>try\<close>; then the handler of lines 138-140.\<close>

definition log_exists :: "world \<Rightarrow> world" where
  "log_exists w = w\<lparr>trace := trace w @ map (\<lambda>d. Path_exists (fst d)) (screenshot_paths w)\<rparr>"

definition log_run :: "world \<Rightarrow> world" where
  "log_run w = w\<lparr>trace := trace w @ [Subprocess_run (import_command w)]\<rparr>"

definition capture_screenshot_try :: "world \<Rightarrow> (exn + pystr) \<times> world" where
  "capture_screenshot_try w =
     (let w1 = log_exists w in
      case stored_screenshot_try w1 of
        Inl e \<Rightarrow> (Inl e, w1)
      | Inr (Some s) \<Rightarrow> (Inr s, w1)
      | Inr None \<Rightarrow>
          (let w2 = log_run w1 in
           case x11 w2 of Some s \<Rightarrow> (Inr s, w2) | None \<Rightarrow> (Inr (Lit []), w2)))"

definition capture_screenshot :: "world \<Rightarrow> pystr \<times> world" where
  "capture_screenshot w =
     (case capture_screenshot_try w of
        (Inr s, w') \<Rightarrow> (s, w')
      | (Inl e, w') \<Rightarrow> (Lit [], w'))"

section \<open>Quest-help requester\<close>

text \<open>The fixed texts of lines 154, 160, 170, 202, 214 and 185.\<close>

definition no_key_message :: string where
  "no_key_message = ''OpenAI API key not configured. Please set your API key first.''"

definition no_screenshot_message :: string where
  "no_screenshot_message = ''No screenshot available. Please take a screenshot first.''"

definition capture_failed_message :: string where
  "capture_failed_message =
     ''Failed to capture screenshot. Please ensure you have taken a screenshot recently.''"

definition instruction :: string where
  "instruction =
     ''I'' @ [CHR 0x27] @ ''m stuck in this game and need help with what to do next. '' @
     ''Please analyze this screenshot and provide clear, step-by-step guidance on how to proceed. '' @
     ''Focus on: 1) What quest or objective I'' @ [CHR 0x27] @ ''m currently on, '' @
     ''2) What I should do next to progress, '' @
     ''3) Any important details or hints visible in the screenshot.''"

definition str :: "exn \<Rightarrow> string" where
  "str e = (case e of Exception m \<Rightarrow> m)"

text \<open>
  Lines 145-155: when there is no client, read the stored key; make the client from it
  (the constructor may raise), or return the credential failure (\<open>Some\<close> of the
  dictionary returned).
\<close>

definition ensure_client :: "world \<Rightarrow> (exn + result option) \<times> world" where
  "ensure_client w =
     (if openai_client w = None then
        (let key = get_api_key w in
         if truthy key \<and> AsyncOpenAI w then
           (case AsyncOpenAI_init w key of
              Inl e \<Rightarrow> (Inl e, w)
            | Inr c \<Rightarrow> (Inr None, w\<lparr>openai_client := Some c, api_key := Some key\<rparr>))
         else (Inr (Some (Failure no_key_message)), w))
      else (Inr None, w))"

text \<open>
  Lines 184-190: the call, \<open>response.choices[0]\<close> (an empty list raises) and
  \<open>help_text[:100]\<close> (a content of \<open>None\<close> raises).
\<close>

definition chat_request :: "pystr \<Rightarrow> request" where
  "chat_request screenshot_base64 =
     \<lparr>model = ''gpt-4-turbo'', prompt = instruction, image_url = screenshot_base64,
      max_tokens = 500\<rparr>"

definition first_choice :: "response \<Rightarrow> exn + string" where
  "first_choice r =
     (case r of
        Raises e \<Rightarrow> Inl e
      | Choices [] \<Rightarrow> Inl (Exception ''list index out of range'')
      | Choices (None # cs) \<Rightarrow>
          Inl (Exception ([CHR 0x27] @ ''NoneType'' @ [CHR 0x27] @ '' object is not subscriptable''))
      | Choices (Some help_text # cs) \<Rightarrow> Inr help_text)"

text \<open>Lines 144-196, the body of the \<open>try\<close>; then the handler of lines 197-203.\<close>

definition get_quest_help_try :: "pystr \<Rightarrow> world \<Rightarrow> (exn + result) \<times> world" where
  "get_quest_help_try screenshot_base64 w =
     (case ensure_client w of
        (Inl e, w1) \<Rightarrow> (Inl e, w1)
      | (Inr (Some r), w1) \<Rightarrow> (Inr r, w1)
      | (Inr None, w1) \<Rightarrow>
          if \<not> nonempty screenshot_base64 then (Inr (Failure no_screenshot_message), w1)
          else
            (let w2 = w1\<lparr>trace := trace w1 @ [Chat_completions_create (chat_request screenshot_base64)]\<rparr>
             in case first_choice (endpoint w2) of
                  Inl e \<Rightarrow> (Inl e, w2)
                | Inr help_text \<Rightarrow> (Inr (Success help_text), w2)))"

definition get_quest_help :: "pystr \<Rightarrow> world \<Rightarrow> result \<times> world" where
  "get_quest_help screenshot_base64 w =
     (case get_quest_help_try screenshot_base64 w of
        (Inr r, w') \<Rightarrow> (r, w')
      | (Inl e, w') \<Rightarrow> (Failure (''Failed to get help from AI: '' @ str e), w'))"

text \<open>
  Lines 205-227.  Both callees catch every exception themselves, so the handler of lines
  221-227 has nothing to catch.
\<close>

definition request_quest_help :: "world \<Rightarrow> result \<times> world" where
  "request_quest_help w =
     (case capture_screenshot w of
        (screenshot_base64, w1) \<Rightarrow>
          if \<not> nonempty screenshot_base64 then (Failure capture_failed_message, w1)
          else get_quest_help screenshot_base64 w1)"

text \<open>Which calls a run made.\<close>

fun is_chat :: "event \<Rightarrow> bool" where
  "is_chat (Chat_completions_create r) = True"
| "is_chat e = False"

fun is_capture :: "event \<Rightarrow> bool" where
  "is_capture (Path_exists p) = True"
| "is_capture (Subprocess_run c) = True"
| "is_capture e = False"

section \<open>Runs and example worlds\<close>

text \<open>
  The entries the loop of lines 81-87 visits, over both candidate directories, in the
  order it visits them.
\<close>

definition matches_in :: "world \<Rightarrow> (path \<times> node) list" where
  "matches_in w =
     concat (map (\<lambda>d. case snd d of None \<Rightarrow> [] | Some ns \<Rightarrow> rglob_jpg (fst d) ns) (screenshot_paths w))"

text \<open>The calls made between a world and a later one.\<close>

definition new_events :: "world \<Rightarrow> world \<Rightarrow> event list" where
  "new_events w w' = drop (length (trace w)) (trace w')"

text \<open>
  A plugin just installed: the libraries imported, a constructor that rejects the empty
  key, no client, no settings file, no screenshot directory, no \<open>import\<close> program, an
  endpoint that cannot be reached.
\<close>

definition fresh :: world where
  "fresh =
     \<lparr>imported = True, rejected_keys = (\<lambda>key. \<not> truthy key), openai_client = None,
      api_key = None, settings = Absent, disk = Healthy, new_file_readable = True,
      key_floor_le = (\<lambda>w h. True), steam_screenshots = None, local_screenshots = None,
      environ_DISPLAY = None, import_tool = Tool_missing,
      endpoint = Raises (Exception ''Connection error.''), trace = []\<rparr>"

definition wide :: image where
  "wide = \<lparr>width = 2560, height = 1440, mode = ''RGB'', label = 1\<rparr>"

definition tall :: image where
  "tall = \<lparr>width = 1200, height = 1600, mode = ''RGB'', label = 2\<rparr>"

definition small :: image where
  "small = \<lparr>width = 800, height = 600, mode = ''RGB'', label = 3\<rparr>"

text \<open>An image with an alpha channel, as a PNG may hold.\<close>

definition overlay :: image where
  "overlay = \<lparr>width = 2000, height = 1000, mode = ''RGBA'', label = 4\<rparr>"

text \<open>
  Two screenshot directories with files at several depths; the newest \<open>.jpg\<close> is
  \<open>570/b.jpg\<close> in the second directory, and a \<open>.png\<close> in the first is newer than all.
\<close>

definition library :: world where
  "library = fresh
     \<lparr>steam_screenshots := Some
        [File ''old.jpg'' 10 (Picture small),
         Dir ''760'' 50 [Dir ''screenshots'' 60 [File ''a.jpg'' 100 (Picture tall),
                                                 File ''new.png'' 900 (Picture small)]]],
      local_screenshots := Some
        [Dir ''570'' 70 [File ''b.jpg'' 300 (Picture wide)],
         File ''c.jpg'' 200 (Picture small)]\<rparr>"

definition newest :: "path \<times> node" where
  "newest = ([''.local'', ''share'', ''Steam'', ''screenshots'', ''570'', ''b.jpg''],
             File ''b.jpg'' 300 (Picture wide))"

definition png :: "path \<times> node" where
  "png = ([''.steam'', ''steam'', ''screenshots'', ''760'', ''screenshots'', ''new.png''],
          File ''new.png'' 900 (Picture small))"

text \<open>
  The same directories, where the newest file \<open>570/b.jpg\<close> is an image with an alpha
  channel saved under that name.
\<close>

definition renamed :: world where
  "renamed = library
     \<lparr>local_screenshots := Some
        [Dir ''570'' 70 [File ''b.jpg'' 300 (Picture overlay)],
         File ''c.jpg'' 200 (Picture small)]\<rparr>"

definition renamed_newest :: "path \<times> node" where
  "renamed_newest = ([''.local'', ''share'', ''Steam'', ''screenshots'', ''570'', ''b.jpg''],
                     File ''b.jpg'' 300 (Picture overlay))"

text \<open>
  Both candidate paths lead to one directory (\<open>.steam/steam\<close> is a link to
  \<open>.local/share/Steam\<close>), so every file is visited twice.
\<close>

definition linked :: world where
  "linked = fresh
     \<lparr>steam_screenshots := Some [File ''s.jpg'' 40 (Picture small), File ''t.jpg'' 30 (Picture tall)],
      local_screenshots := Some [File ''s.jpg'' 40 (Picture small), File ''t.jpg'' 30 (Picture tall)]\<rparr>"

definition linked_newest :: "path \<times> node" where
  "linked_newest = ([''.steam'', ''steam'', ''screenshots'', ''s.jpg''], File ''s.jpg'' 40 (Picture small))"

text \<open>A settings file holding a key, readable; and one this process may write but not read.\<close>

definition stored :: settings_file where
  "stored = Present True (Document (JDict [(''api_key'', JStr ''sk-1'')]))"


text \<open>
  The calls \<open>capture_screenshot\<close> makes: one \<open>exists()\<close> per candidate directory, and
  the \<open>import\<close> command when the block of lines 89-103 did not return.
\<close>

definition capture_events :: "world \<Rightarrow> event list" where
  "capture_events w =
     map (\<lambda>d. Path_exists (fst d)) (screenshot_paths w) @
     (if stored_screenshot_try w = Inr None then [Subprocess_run (import_command w)] else [])"

text \<open>A plugin whose key has been set and saved.\<close>

definition configured :: world where
  "configured = fresh\<lparr>openai_client := Some (Client (JStr ''sk-1'')), api_key := Some (JStr ''sk-1''),
                        settings := stored\<rparr>"

text \<open>
  A screenshot directory that holds no \<open>.jpg\<close> at any depth, and an \<open>import\<close> command
  that does not finish within its timeout.
\<close>

definition no_match :: world where
  "no_match = fresh\<lparr>steam_screenshots := Some [Dir ''760'' 50 [File ''new.png'' 900 (Picture small)]],
                      import_tool := Timed_out\<rparr>"

text \<open>A screenshot whose modification time is the epoch, \<open>st_mtime = 0\<close>.\<close>

definition epoch :: world where
  "epoch = fresh\<lparr>steam_screenshots := Some [File ''a.jpg'' 0 (Picture small)]\<rparr>"

section \<open>Credential store: properties\<close>


text \<open>
  C8.  When the settings file is absent, cannot be opened, or holds text that is not JSON,
  \<open>get_api_key\<close> returns the empty string.  It returns a value in every world: the
  exceptions of the body are caught by the handler.
\<close>

theorem get_api_key_unusable_file:
  "settings w = Absent \<or> (\<exists>c. settings w = Present False c) \<or>
   (\<exists>r. settings w = Present r Garbled) \<Longrightarrow>
   get_api_key w = JStr []"
  by (auto simp: get_api_key_def get_api_key_try_def split: bool.splits)

theorem get_api_key_unusable_file_witness:
  "settings (fresh\<lparr>settings := Present True Garbled\<rparr>) = Present True Garbled \<and>
   get_api_key (fresh\<lparr>settings := Present True Garbled\<rparr>) = JStr []"
proof -
  have h: "settings (fresh\<lparr>settings := Present True Garbled\<rparr>) = Absent \<or>
      (\<exists>c. settings (fresh\<lparr>settings := Present True Garbled\<rparr>) = Present False c) \<or>
      (\<exists>r. settings (fresh\<lparr>settings := Present True Garbled\<rparr>) = Present r Garbled)"
    by auto
  from get_api_key_unusable_file [OF h] show ?thesis by simp
qed




text \<open>
  C9, as the code has it.  Take a run in which the constructor of line 40 did not raise
  and a step of the file write (lines 44-47) raises.  Then \<open>set_api_key k\<close> returns
  false; the attribute \<open>api_key\<close> holds \<open>k\<close>; the client holds \<open>k\<close> when \<open>AsyncOpenAI\<close>
  was imported and is the one from before otherwise; and the settings file is as before
  when \<open>mkdir\<close> or \<open>open\<close> raised, and holds what the failed write left when the write
  after \<open>open\<close> raised.
\<close>

theorem set_api_key_failure:
  assumes "\<not> (AsyncOpenAI w \<and> rejected_keys w (JStr k))" and "disk w \<noteq> Healthy"
  shows "\<not> fst (set_api_key k w) \<and>
         api_key (snd (set_api_key k w)) = Some (JStr k) \<and>
         openai_client (snd (set_api_key k w)) =
           (if AsyncOpenAI w then Some (Client (JStr k)) else openai_client w) \<and>
         settings (snd (set_api_key k w)) =
           (case disk w of Dump_fails left \<Rightarrow> written w left | _ \<Rightarrow> settings w)"
  using assms
  by (cases "disk w"; cases "imported w")
     (simp_all add: set_api_key_def set_api_key_try_def save_settings_def AsyncOpenAI_def
        AsyncOpenAI_init_def Let_def written_def split: settings_file.splits)

theorem set_api_key_failure_witness:
  "\<not> (AsyncOpenAI (fresh\<lparr>settings := stored, disk := Open_fails\<rparr>) \<and>
      rejected_keys (fresh\<lparr>settings := stored, disk := Open_fails\<rparr>) (JStr ''sk-2'')) \<and>
   disk (fresh\<lparr>settings := stored, disk := Open_fails\<rparr>) \<noteq> Healthy \<and>
   \<not> fst (set_api_key ''sk-2'' (fresh\<lparr>settings := stored, disk := Open_fails\<rparr>)) \<and>
   api_key (snd (set_api_key ''sk-2'' (fresh\<lparr>settings := stored, disk := Open_fails\<rparr>))) =
     Some (JStr ''sk-2'') \<and>
   openai_client (snd (set_api_key ''sk-2'' (fresh\<lparr>settings := stored, disk := Open_fails\<rparr>))) =
     Some (Client (JStr ''sk-2'')) \<and>
   settings (snd (set_api_key ''sk-2'' (fresh\<lparr>settings := stored, disk := Open_fails\<rparr>))) = stored"
proof -
  have h: "\<not> (AsyncOpenAI (fresh\<lparr>settings := stored, disk := Open_fails\<rparr>) \<and>
      rejected_keys (fresh\<lparr>settings := stored, disk := Open_fails\<rparr>) (JStr ''sk-2''))"
    "disk (fresh\<lparr>settings := stored, disk := Open_fails\<rparr>) \<noteq> Healthy"
    by (simp_all add: fresh_def)
  have a: "AsyncOpenAI (fresh\<lparr>settings := stored, disk := Open_fails\<rparr>)"
    by (simp add: AsyncOpenAI_def fresh_def)
  from set_api_key_failure [OF h] h a show ?thesis by simp
qed

text \<open>
  C9 as stated fails in two ways: a write that raises after \<open>open(settings_path, 'w')\<close>
  leaves the file without its old contents, and when the import of lines 12-19 failed no
  client is made.
\<close>

theorem set_api_key_failure_counterexample:
  "\<not> fst (set_api_key ''sk-2'' (fresh\<lparr>settings := stored, disk := Dump_fails Garbled\<rparr>)) \<and>
   settings (snd (set_api_key ''sk-2'' (fresh\<lparr>settings := stored, disk := Dump_fails Garbled\<rparr>))) =
     Present True Garbled \<and>
   \<not> fst (set_api_key ''sk-2'' (fresh\<lparr>imported := False, disk := Open_fails\<rparr>)) \<and>
   openai_client (snd (set_api_key ''sk-2'' (fresh\<lparr>imported := False, disk := Open_fails\<rparr>))) = None"
  by (simp add: set_api_key_def set_api_key_try_def save_settings_def AsyncOpenAI_def
        AsyncOpenAI_init_def Let_def written_def fresh_def stored_def)

text \<open>
  \<open>set_api_key\<close> also returns false when the constructor raises.  No write is attempted
  then: the attribute \<open>api_key\<close> holds the new key, the client and the file are as before.
\<close>

lemma set_api_key_constructor_raises:
  "AsyncOpenAI w \<Longrightarrow> rejected_keys w (JStr k) \<Longrightarrow>
   set_api_key k w = (False, w\<lparr>api_key := Some (JStr k)\<rparr>)"
  by (simp add: set_api_key_def set_api_key_try_def AsyncOpenAI_def AsyncOpenAI_init_def Let_def)

lemma set_api_key_empty_key:
  "set_api_key [] fresh = (False, fresh\<lparr>api_key := Some (JStr [])\<rparr>)"
  by (rule set_api_key_constructor_raises) (simp_all add: AsyncOpenAI_def fresh_def)

section \<open>Quest-help requester: properties\<close>

lemma ensure_client_trace: "trace (snd (ensure_client w)) = trace w"
  by (simp add: ensure_client_def Let_def split: sum.splits)

lemma ensure_client_endpoint: "endpoint (snd (ensure_client w)) = endpoint w"
  by (simp add: ensure_client_def Let_def split: sum.splits)

text \<open>
  C5.  In every run of \<open>get_quest_help\<close> that makes the remote call, if the call raises
  an exception \<open>e\<close> then the function returns the failure dictionary whose error text is
  \<open>Failed to get help from AI: \<close> followed by \<open>str(e)\<close>.
\<close>

theorem get_quest_help_remote_raises:
  assumes "endpoint w = Raises e"
    and "trace (snd (get_quest_help s w)) = trace w @ [Chat_completions_create (chat_request s)]"
  shows "fst (get_quest_help s w) = Failure (''Failed to get help from AI: '' @ str e)"
proof (cases "ensure_client w")
  case (Pair r w1)
  have tr: "trace w1 = trace w" and ep: "endpoint w1 = endpoint w"
    using Pair ensure_client_trace [of w] ensure_client_endpoint [of w] by simp_all
  show ?thesis
  proof (cases r)
    case (Inl early)
    with Pair assms(2) tr show ?thesis
      by (simp add: get_quest_help_def get_quest_help_try_def)
  next
    case (Inr ready)
    show ?thesis
    proof (cases ready)
      case (Some early)
      with Pair Inr assms(2) tr show ?thesis
        by (simp add: get_quest_help_def get_quest_help_try_def)
    next
      case None
      show ?thesis
      proof (cases "nonempty s")
        case False
        with Pair Inr None assms(2) tr show ?thesis
          by (simp add: get_quest_help_def get_quest_help_try_def)
      next
        case True
        with Pair Inr None assms(1) ep show ?thesis
          by (simp add: get_quest_help_def get_quest_help_try_def Let_def first_choice_def)
      qed
    qed
  qed
qed

theorem get_quest_help_remote_raises_witness:
  "endpoint configured = Raises (Exception ''Connection error.'') \<and>
   trace (snd (get_quest_help (Base64 (Jpeg 85 small)) configured)) =
     trace configured @ [Chat_completions_create (chat_request (Base64 (Jpeg 85 small)))] \<and>
   fst (get_quest_help (Base64 (Jpeg 85 small)) configured) =
     Failure ''Failed to get help from AI: Connection error.''"
proof -
  have h: "endpoint configured = Raises (Exception ''Connection error.'')"
    "trace (snd (get_quest_help (Base64 (Jpeg 85 small)) configured)) =
       trace configured @ [Chat_completions_create (chat_request (Base64 (Jpeg 85 small)))]"
    by (simp_all add: configured_def fresh_def get_quest_help_def get_quest_help_try_def
          ensure_client_def Let_def first_choice_def)
  from get_quest_help_remote_raises [OF h] h show ?thesis by (simp add: str_def)
qed

section \<open>Image normalizer: properties\<close>

text \<open>
  \<open>round_aspect\<close> on a positive number gives one of its two neighbouring integers, and at
  least 1, whichever way the keys compare.
\<close>

lemma round_aspect_bounds:
  assumes "0 < r"
  shows "1 \<le> round_aspect r b" and "round_aspect r b \<le> \<lceil>r\<rceil>"
    and "\<bar>real_of_int (round_aspect r b) - r\<bar> < 1"
proof -
  have c1: "1 \<le> \<lceil>r\<rceil>" using assms by linarith
  have fl: "real_of_int \<lfloor>r\<rfloor> \<le> r" "r < real_of_int \<lfloor>r\<rfloor> + 1" by linarith+
  have ce: "r \<le> real_of_int \<lceil>r\<rceil>" "real_of_int \<lceil>r\<rceil> < r + 1" by linarith+
  have fc: "\<lfloor>r\<rfloor> \<le> \<lceil>r\<rceil>" by linarith
  show "1 \<le> round_aspect r b" by (simp add: round_aspect_def)
  show "round_aspect r b \<le> \<lceil>r\<rceil>" using c1 fc by (simp add: round_aspect_def)
  show "\<bar>real_of_int (round_aspect r b) - r\<bar> < 1"
  proof (cases b)
    case True
    then have ra: "round_aspect r b = max \<lfloor>r\<rfloor> 1" by (simp add: round_aspect_def)
    show ?thesis
    proof (cases "1 \<le> \<lfloor>r\<rfloor>")
      case True
      then have "max \<lfloor>r\<rfloor> 1 = \<lfloor>r\<rfloor>" by simp
      then show ?thesis unfolding ra using fl by linarith
    next
      case False
      then have "max \<lfloor>r\<rfloor> 1 = 1" by simp
      moreover have "r < 1" using False fl by linarith
      ultimately show ?thesis unfolding ra using assms by simp
    qed
  next
    case False
    then have "round_aspect r b = max \<lceil>r\<rceil> 1" by (simp add: round_aspect_def)
    then have "round_aspect r b = \<lceil>r\<rceil>" using c1 by simp
    then show ?thesis using ce by linarith
  qed
qed

lemma thumbnail_by_height:
  assumes "\<not> (x \<ge> width img \<and> y \<ge> height img)" and "height img \<noteq> 0"
    and "real x / real y \<ge> real (width img) / real (height img)"
  shows "thumbnail c (x, y) img =
           Inr (img\<lparr>width := nat (round_aspect (real y * (real (width img) / real (height img)))
                                   (c (width img) (height img))),
                      height := y\<rparr>)"
  using assms by (auto simp: thumbnail_def Let_def)

lemma thumbnail_by_width:
  assumes "\<not> (x \<ge> width img \<and> y \<ge> height img)" and "height img \<noteq> 0"
    and "\<not> real x / real y \<ge> real (width img) / real (height img)"
  shows "thumbnail c (x, y) img =
           Inr (img\<lparr>width := x,
                      height := nat (round_aspect (real x / (real (width img) / real (height img)))
                                   (c (width img) (height img)))\<rparr>)"
  using assms by (auto simp: thumbnail_def Let_def)

lemma thumbnail_tall:
  assumes "0 < width img" and "width img \<le> height img" and "1024 < height img"
  defines "r \<equiv> 1024 * real (width img) / real (height img)"
  shows "\<exists>out. thumbnail c (1024, 1024) img = Inr out \<and>
           1 \<le> width out \<and> width out \<le> 1024 \<and> height out = 1024 \<and>
           mode out = mode img \<and> label out = label img \<and>
           \<bar>real (width out) - r\<bar> < 1"
proof -
  let ?b = "c (width img) (height img)"
  have pos: "0 < r" using assms(1,3) by (simp add: r_def)
  have le: "r \<le> 1024" using assms(2,3) by (simp add: r_def field_simps)
  have b: "1 \<le> round_aspect r ?b" "round_aspect r ?b \<le> \<lceil>r\<rceil>"
    "\<bar>real_of_int (round_aspect r ?b) - r\<bar> < 1"
    using round_aspect_bounds [OF pos] by blast+
  have "\<lceil>r\<rceil> \<le> 1024" using le by (simp add: ceiling_le_iff)
  with b have up: "round_aspect r ?b \<le> 1024" by linarith
  have asp: "real (width img) / real (height img) \<le> real 1024 / real 1024"
    using assms(2,3) by (simp add: field_simps)
  have rr: "real 1024 * (real (width img) / real (height img)) = r"
    by (simp add: r_def)
  have "thumbnail c (1024, 1024) img =
      Inr (img\<lparr>width := nat (round_aspect (real 1024 * (real (width img) / real (height img))) ?b),
                 height := 1024\<rparr>)"
    using assms(3) asp by (intro thumbnail_by_height) simp_all
  then have "thumbnail c (1024, 1024) img =
      Inr (img\<lparr>width := nat (round_aspect r ?b), height := 1024\<rparr>)"
    unfolding rr .
  moreover have "real (nat (round_aspect r ?b)) = real_of_int (round_aspect r ?b)"
    using b(1) by simp
  ultimately show ?thesis using b up by (auto simp: nat_le_iff)
qed

lemma thumbnail_wide:
  assumes "0 < height img" and "height img < width img" and "1024 < width img"
  defines "r \<equiv> 1024 * real (height img) / real (width img)"
  shows "\<exists>out. thumbnail c (1024, 1024) img = Inr out \<and>
           width out = 1024 \<and> 1 \<le> height out \<and> height out \<le> 1024 \<and>
           mode out = mode img \<and> label out = label img \<and>
           \<bar>real (height out) - r\<bar> < 1"
proof -
  let ?a = "real (width img) / real (height img)"
  let ?b = "c (width img) (height img)"
  have r: "real 1024 / ?a = r" using assms(1,3) by (simp add: r_def)
  have pos: "0 < r" using assms(1,3) by (simp add: r_def)
  have le: "r \<le> 1024" using assms(1,2) by (simp add: r_def field_simps)
  have b: "1 \<le> round_aspect r ?b" "round_aspect r ?b \<le> \<lceil>r\<rceil>"
    "\<bar>real_of_int (round_aspect r ?b) - r\<bar> < 1"
    using round_aspect_bounds [OF pos] by blast+
  have "\<lceil>r\<rceil> \<le> 1024" using le by (simp add: ceiling_le_iff)
  with b have up: "round_aspect r ?b \<le> 1024" by linarith
  have asp: "\<not> real 1024 / real 1024 \<ge> ?a" using assms(1,2) by (simp add: field_simps)
  have "thumbnail c (1024, 1024) img =
      Inr (img\<lparr>width := 1024, height := nat (round_aspect (real 1024 / ?a) ?b)\<rparr>)"
    using assms(1,3) asp by (intro thumbnail_by_width) simp_all
  then have "thumbnail c (1024, 1024) img =
      Inr (img\<lparr>width := 1024, height := nat (round_aspect r ?b)\<rparr>)"
    unfolding r .
  moreover have "real (nat (round_aspect r ?b)) = real_of_int (round_aspect r ?b)"
    using b(1) by simp
  ultimately show ?thesis using b up by (auto simp: nat_le_iff)
qed

text \<open>An image with pixels always gets a thumbnail, of the same mode and picture, within the bound.\<close>

lemma thumbnail_fits:
  assumes "0 < width img" and "0 < height img"
  shows "\<exists>out. thumbnail c (1024, 1024) img = Inr out \<and> mode out = mode img \<and>
           label out = label img \<and> width out \<le> 1024 \<and> height out \<le> 1024"
proof (cases "width img \<le> 1024 \<and> height img \<le> 1024")
  case True
  then show ?thesis by (simp add: thumbnail_def)
next
  case big: False
  show ?thesis
  proof (cases "width img \<le> height img")
    case True
    then have "1024 < height img" using big by linarith
    from thumbnail_tall [OF assms(1) True this, of c] show ?thesis by auto
  next
    case False
    then have lt: "height img < width img" by simp
    then have "1024 < width img" using big by linarith
    from thumbnail_wide [OF assms(2) lt this, of c] show ?thesis by auto
  qed
qed

text \<open>
  C4, as the code has it.  For an image in a mode that can be written as JPEG, with
  positive width and height of which one exceeds 1024, the normalizer returns the base64
  text of a JPEG saved with quality 85 whose width and height are between 1 and 1024 and
  which shows the same picture.  One side is exactly 1024 and the other differs from the
  exactly scaled length by less than one pixel.
\<close>

theorem normalize_bounds:
  assumes "mode img \<in> set jpeg_modes" and "0 < width img" and "0 < height img"
    and "1024 < width img \<or> 1024 < height img"
  shows "\<exists>out. normalize c img = Inr (Base64 (Jpeg 85 out)) \<and>
           1 \<le> width out \<and> width out \<le> 1024 \<and> 1 \<le> height out \<and> height out \<le> 1024 \<and>
           label out = label img \<and>
           (height out = 1024 \<and>
              \<bar>real (width out) - 1024 * real (width img) / real (height img)\<bar> < 1 \<or>
            width out = 1024 \<and>
              \<bar>real (height out) - 1024 * real (height img) / real (width img)\<bar> < 1)"
proof (cases "width img \<le> height img")
  case True
  then have "1024 < height img" using assms(4) by linarith
  from thumbnail_tall [OF assms(2) True this, of c] obtain out where
    "thumbnail c (1024, 1024) img = Inr out" "1 \<le> width out" "width out \<le> 1024"
    "height out = 1024" "mode out = mode img" "label out = label img"
    "\<bar>real (width out) - 1024 * real (width img) / real (height img)\<bar> < 1"
    by blast
  then show ?thesis using assms(1) by (auto simp: normalize_def save_jpeg_def)
next
  case False
  then have lt: "height img < width img" by simp
  then have "1024 < width img" using assms(4) by linarith
  from thumbnail_wide [OF assms(3) lt this, of c] obtain out where
    "thumbnail c (1024, 1024) img = Inr out" "width out = 1024" "1 \<le> height out"
    "height out \<le> 1024" "mode out = mode img" "label out = label img"
    "\<bar>real (height out) - 1024 * real (height img) / real (width img)\<bar> < 1"
    by blast
  then show ?thesis using assms(1) by (auto simp: normalize_def save_jpeg_def)
qed

lemma normalize_wide:
  "normalize c wide =
     Inr (Base64 (Jpeg 85 \<lparr>width = 1024, height = 576, mode = ''RGB'', label = 1\<rparr>))"
  by (simp add: normalize_def thumbnail_def save_jpeg_def jpeg_modes_def wide_def Let_def
        round_aspect_def)

lemma normalize_tall:
  "normalize c tall =
     Inr (Base64 (Jpeg 85 \<lparr>width = 768, height = 1024, mode = ''RGB'', label = 2\<rparr>))"
  by (simp add: normalize_def thumbnail_def save_jpeg_def jpeg_modes_def tall_def Let_def
        round_aspect_def)

lemma normalize_small: "normalize c small = Inr (Base64 (Jpeg 85 small))"
  by (simp add: normalize_def thumbnail_def save_jpeg_def jpeg_modes_def small_def Let_def
        round_aspect_def)

lemma normalize_overlay:
  "normalize c overlay = Inl (Exception ''cannot write mode RGBA as JPEG'')"
  by (simp add: normalize_def thumbnail_def save_jpeg_def jpeg_modes_def overlay_def Let_def
        round_aspect_def)

text \<open>
  For an image of 2816 by 15 the exact keys of 5 and 6 are equal; the height is 5 or 6 as
  the comparison of the doubles comes out.
\<close>

lemma thumbnail_tie:
  "thumbnail c (1024, 1024) \<lparr>width = 2816, height = 15, mode = ''RGB'', label = 0\<rparr> =
     Inr \<lparr>width = 1024, height = (if c 2816 15 then 5 else 6), mode = ''RGB'', label = 0\<rparr>"
  by (simp add: thumbnail_def Let_def round_aspect_def)

theorem normalize_bounds_witness:
  "mode wide \<in> set jpeg_modes \<and> 0 < width wide \<and> 0 < height wide \<and> 1024 < width wide \<and>
   (\<exists>out. normalize (key_floor_le fresh) wide = Inr (Base64 (Jpeg 85 out)) \<and>
      width out \<le> 1024 \<and> height out \<le> 1024 \<and>
      \<bar>real (height out) - 1024 * real (height wide) / real (width wide)\<bar> < 1)"
proof -
  have h: "mode wide \<in> set jpeg_modes" "0 < width wide" "0 < height wide"
    "1024 < width wide \<or> 1024 < height wide"
    by (simp_all add: wide_def jpeg_modes_def)
  from normalize_bounds [OF h, of "key_floor_le fresh"] obtain out where
    o: "normalize (key_floor_le fresh) wide = Inr (Base64 (Jpeg 85 out))"
       "width out \<le> 1024" "height out \<le> 1024"
       "height out = 1024 \<and> \<bar>real (width out) - 1024 * real (width wide) / real (height wide)\<bar> < 1 \<or>
        width out = 1024 \<and> \<bar>real (height out) - 1024 * real (height wide) / real (width wide)\<bar> < 1"
    by blast
  have "\<not> \<bar>real (width out) - 1024 * real (width wide) / real (height wide)\<bar> < 1"
    using o(2) by (simp add: wide_def)
  moreover have "1024 < width wide" by (simp add: wide_def)
  ultimately show ?thesis using o h(1,2,3) by blast
qed

text \<open>
  C4 as stated fails: for an image with an alpha channel \<open>img.save\<close> raises, and the
  normalizer produces no encoding.
\<close>

theorem normalize_bounds_counterexample:
  "0 < height overlay \<and> 1024 < width overlay \<and>
   normalize (key_floor_le fresh) overlay = Inl (Exception ''cannot write mode RGBA as JPEG'')"
  by (simp add: normalize_overlay) (simp add: overlay_def)


section \<open>Screenshot locator: properties\<close>

text \<open>The nested loops of lines 81-87 are one loop over \<open>matches_in\<close>.\<close>

lemma foldl_scan_dir:
  "foldl scan_dir acc ds =
   foldl visit acc (concat (map (\<lambda>d. case snd d of None \<Rightarrow> [] | Some ns \<Rightarrow> rglob_jpg (fst d) ns) ds))"
  by (induction ds arbitrary: acc) (simp_all add: scan_dir_def split: option.splits)

lemma find_latest_matches: "find_latest w = foldl visit (None, 0) (matches_in w)"
  by (simp add: find_latest_def matches_in_def foldl_scan_dir)

text \<open>
  What \<open>rglob\<close> yields: only names ending in \<open>.jpg\<close>; every such entry of the directory
  itself; and everything it yields for a subdirectory.
\<close>

lemma matching_names: "g \<in> set (matching p ns) \<Longrightarrow> matches_jpg (node_name (snd g))"
  by (auto simp: matching_def)

lemma walk_names:
  "g \<in> set (walk p n) \<Longrightarrow> matches_jpg (node_name (snd g))"
  "g \<in> set (walks p ns) \<Longrightarrow> matches_jpg (node_name (snd g))"
  by (induction p n and p ns arbitrary: g and g rule: walk_walks.induct)
     (auto dest: matching_names)

lemma rglob_names: "g \<in> set (rglob_jpg p ns) \<Longrightarrow> matches_jpg (node_name (snd g))"
  by (auto simp: rglob_jpg_def dest: matching_names walk_names)

lemma matches_in_names: "g \<in> set (matches_in w) \<Longrightarrow> matches_jpg (node_name (snd g))"
  by (auto simp: matches_in_def screenshot_paths_def dest: rglob_names split: option.splits)

lemma rglob_direct:
  "n \<in> set ns \<Longrightarrow> matches_jpg (node_name n) \<Longrightarrow> (p @ [node_name n], n) \<in> set (rglob_jpg p ns)"
  by (simp add: rglob_jpg_def matching_def)

lemma walks_subdirectory:
  "Dir d t cs \<in> set ns \<Longrightarrow> set (rglob_jpg (p @ [d]) cs) \<subseteq> set (walks p ns)"
  by (induction ns) (auto simp: rglob_jpg_def)

lemma rglob_subdirectory:
  "Dir d t cs \<in> set ns \<Longrightarrow> g \<in> set (rglob_jpg (p @ [d]) cs) \<Longrightarrow> g \<in> set (rglob_jpg p ns)"
  using walks_subdirectory [of d t cs ns p] by (auto simp: rglob_jpg_def)

text \<open>The loop: what it keeps, what it picks, and where the pick comes from.\<close>

lemma visit_keeps: "\<forall>g \<in> set xs. st_mtime (snd g) \<le> snd acc \<Longrightarrow> foldl visit acc xs = acc"
  by (induction xs arbitrary: acc) (simp_all add: visit_def)

lemma visit_newest:
  assumes "f \<in> set xs"
    and "\<forall>g \<in> set xs. st_mtime (snd g) \<le> st_mtime (snd f)"
    and "\<forall>g \<in> set xs. st_mtime (snd g) = st_mtime (snd f) \<longrightarrow> snd g = snd f"
    and "snd acc < st_mtime (snd f)"
  shows "\<exists>p. foldl visit acc xs = (Some (p, snd f), st_mtime (snd f))"
  using assms
proof (induction xs arbitrary: acc)
  case Nil
  then show ?case by simp
next
  case (Cons x xs)
  show ?case
  proof (cases "st_mtime (snd x) = st_mtime (snd f)")
    case True
    then have same: "snd x = snd f" using Cons.prems(3) by simp
    have "visit acc x = (Some (fst x, snd f), st_mtime (snd f))"
      using True same Cons.prems(4) by (simp add: visit_def prod_eq_iff)
    moreover have "foldl visit (Some (fst x, snd f), st_mtime (snd f)) xs =
        (Some (fst x, snd f), st_mtime (snd f))"
      using Cons.prems(2) by (intro visit_keeps) simp
    ultimately show ?thesis by simp
  next
    case False
    then have "x \<noteq> f" by auto
    then have mem: "f \<in> set xs" using Cons.prems(1) by simp
    have "st_mtime (snd x) \<le> st_mtime (snd f)"
      using Cons.prems(2) by simp
    with False have lt: "st_mtime (snd x) < st_mtime (snd f)" by simp
    have "snd (visit acc x) < st_mtime (snd f)"
      using lt Cons.prems(4) by (simp add: visit_def)
    then have "\<exists>p. foldl visit (visit acc x) xs = (Some (p, snd f), st_mtime (snd f))"
      using Cons.IH [of "visit acc x"] mem Cons.prems(2,3) by simp
    then show ?thesis by simp
  qed
qed

lemma visit_from_list:
  "fst (foldl visit acc xs) = Some f \<Longrightarrow> fst acc = Some f \<or> f \<in> set xs"
proof (induction xs arbitrary: acc)
  case Nil
  then show ?case by simp
next
  case (Cons x xs)
  from Cons.prems have "fst (foldl visit (visit acc x) xs) = Some f" by simp
  then have "fst (visit acc x) = Some f \<or> f \<in> set xs" by (rule Cons.IH)
  then show ?case by (auto simp: visit_def split: if_splits)
qed

text \<open>The trace is written, never read.\<close>

lemma find_latest_trace: "find_latest (w\<lparr>trace := t\<rparr>) = find_latest w"
  by (simp add: find_latest_def screenshot_paths_def)

lemma x11_trace: "x11 (w\<lparr>trace := t\<rparr>) = x11 w"
  by (simp add: x11_def x11_try_def Image_def split: completed.splits sum.splits)

lemma stored_trace: "stored_screenshot_try (w\<lparr>trace := t\<rparr>) = stored_screenshot_try w"
  by (simp add: stored_screenshot_try_def find_latest_trace Image_def split: option.splits sum.splits)

lemma get_api_key_trace: "get_api_key (w\<lparr>trace := t\<rparr>) = get_api_key w"
  by (simp add: get_api_key_def get_api_key_try_def)

text \<open>\<open>capture_screenshot\<close> in one equation: its value, and the world with the calls added.\<close>

lemma capture_try:
  "capture_screenshot_try w =
     (case stored_screenshot_try w of
        Inl e \<Rightarrow> Inl e
      | Inr (Some s) \<Rightarrow> Inr s
      | Inr None \<Rightarrow> (case x11 w of Some s \<Rightarrow> Inr s | None \<Rightarrow> Inr (Lit [])),
      w\<lparr>trace := trace w @ capture_events w\<rparr>)"
  by (simp add: capture_screenshot_try_def Let_def log_exists_def log_run_def stored_trace
        x11_trace capture_events_def import_command_def screenshot_paths_def
      split: sum.splits option.splits)

lemma capture_world:
  "snd (capture_screenshot w) = w\<lparr>trace := trace w @ capture_events w\<rparr>"
  by (simp add: capture_screenshot_def capture_try split: sum.splits)

lemma capture_events_no_chat: "filter is_chat (capture_events w) = []"
  by (simp add: capture_events_def screenshot_paths_def)

lemma capture_events_capture: "filter is_capture (capture_events w) \<noteq> []"
  by (simp add: capture_events_def screenshot_paths_def)

text \<open>The example worlds, evaluated.\<close>

lemmas scan_simps =
  matches_in_def screenshot_paths_def rglob_jpg_def matching_def matches_jpg_def
  suffix_to_prefix

lemma matches_in_library:
  "matches_in library =
     [([''.steam'', ''steam'', ''screenshots'', ''old.jpg''], File ''old.jpg'' 10 (Picture small)),
      ([''.steam'', ''steam'', ''screenshots'', ''760'', ''screenshots'', ''a.jpg''], File ''a.jpg'' 100 (Picture tall)),
      ([''.local'', ''share'', ''Steam'', ''screenshots'', ''c.jpg''], File ''c.jpg'' 200 (Picture small)),
      newest]"
  by (simp add: scan_simps library_def fresh_def newest_def)

lemma matches_in_imported: "matches_in (w\<lparr>imported := b\<rparr>) = matches_in w"
  by (simp add: matches_in_def screenshot_paths_def)

lemma find_latest_library: "find_latest library = (Some newest, 300)"
  by (simp add: find_latest_matches matches_in_library visit_def newest_def)

lemma matches_in_renamed:
  "matches_in renamed =
     [([''.steam'', ''steam'', ''screenshots'', ''old.jpg''], File ''old.jpg'' 10 (Picture small)),
      ([''.steam'', ''steam'', ''screenshots'', ''760'', ''screenshots'', ''a.jpg''], File ''a.jpg'' 100 (Picture tall)),
      ([''.local'', ''share'', ''Steam'', ''screenshots'', ''c.jpg''], File ''c.jpg'' 200 (Picture small)),
      renamed_newest]"
  by (simp add: scan_simps renamed_def library_def fresh_def renamed_newest_def)

lemma find_latest_renamed: "find_latest renamed = (Some renamed_newest, 300)"
  by (simp add: find_latest_matches matches_in_renamed visit_def renamed_newest_def)

lemma matches_in_linked:
  "matches_in linked =
     [linked_newest,
      ([''.steam'', ''steam'', ''screenshots'', ''t.jpg''], File ''t.jpg'' 30 (Picture tall)),
      ([''.local'', ''share'', ''Steam'', ''screenshots'', ''s.jpg''], File ''s.jpg'' 40 (Picture small)),
      ([''.local'', ''share'', ''Steam'', ''screenshots'', ''t.jpg''], File ''t.jpg'' 30 (Picture tall))]"
  by (simp add: scan_simps linked_def fresh_def linked_newest_def)

text \<open>
  C10.  An entry whose name does not end in \<open>.jpg\<close> is never the screenshot the scan of
  \<open>capture_screenshot\<close> selects, whatever its modification time.
\<close>

theorem only_jpg_selected:
  "\<not> suffix ''.jpg'' (node_name (snd f)) \<Longrightarrow> fst (find_latest w) \<noteq> Some f"
proof
  assume no: "\<not> suffix ''.jpg'' (node_name (snd f))" and sel: "fst (find_latest w) = Some f"
  from sel have "f \<in> set (matches_in w)"
    using visit_from_list [of "(None, 0)" "matches_in w" f] by (simp add: find_latest_matches)
  then have "matches_jpg (node_name (snd f))" by (rule matches_in_names)
  with no show False by (simp add: matches_jpg_def)
qed

text \<open>In \<open>library\<close> the \<open>.png\<close> is newer than the newest \<open>.jpg\<close> and is not selected.\<close>

theorem only_jpg_selected_witness:
  "\<not> suffix ''.jpg'' (node_name (snd png)) \<and> fst (find_latest library) \<noteq> Some png \<and>
   st_mtime (snd newest) < st_mtime (snd png)"
  using only_jpg_selected [of png library] by (simp add: png_def newest_def suffix_to_prefix)

text \<open>
  C3, as the code has it.  Let the files matching \<open>*.jpg\<close> below the candidate
  directories, at any depth, have distinct modification times, and let \<open>f\<close> be the one
  with the latest.  If that time is greater than 0, the \<open>Image\<close> class was imported,
  \<open>Image.open\<close> decodes \<open>f\<close> to an image with pixels, and its mode can be written as
  JPEG, then the scan selects the file of \<open>f\<close> and \<open>capture_screenshot\<close> returns the
  base64 text of a JPEG of quality 85 that shows the picture of \<open>f\<close>, bounded by 1024.
  (A file reached through both candidate paths is one file, visited twice.)
\<close>

theorem newest_screenshot_returned:
  assumes "f \<in> set (matches_in w)"
    and "\<forall>g \<in> set (matches_in w). st_mtime (snd g) \<le> st_mtime (snd f)"
    and "inj_on st_mtime (snd ` set (matches_in w))"
    and "0 < st_mtime (snd f)"
    and "Image w"
    and "Image_open (snd f) = Inr img"
    and "mode img \<in> set jpeg_modes" and "0 < width img" and "0 < height img"
  shows "map_option snd (fst (find_latest w)) = Some (snd f) \<and>
         (\<exists>out. thumbnail (key_floor_le w) (1024, 1024) img = Inr out \<and>
            fst (capture_screenshot w) = Base64 (Jpeg 85 out) \<and>
            label out = label img \<and> width out \<le> 1024 \<and> height out \<le> 1024)"
proof -
  have same: "\<forall>g \<in> set (matches_in w). st_mtime (snd g) = st_mtime (snd f) \<longrightarrow> snd g = snd f"
    using assms(1,3) by (auto dest: inj_onD)
  obtain p where sel: "find_latest w = (Some (p, snd f), st_mtime (snd f))"
    unfolding find_latest_matches
    using visit_newest [of f "matches_in w" "(None, 0)"] assms(1,2,4) same by auto
  obtain out where out: "thumbnail (key_floor_le w) (1024, 1024) img = Inr out"
    "mode out = mode img" "label out = label img" "width out \<le> 1024" "height out \<le> 1024"
    using thumbnail_fits [OF assms(8,9), of "key_floor_le w"] by blast
  have norm: "normalize (key_floor_le w) img = Inr (Base64 (Jpeg 85 out))"
    using out(1,2) assms(7) by (simp add: normalize_def save_jpeg_def)
  have "stored_screenshot_try w = Inr (Some (Base64 (Jpeg 85 out)))"
    by (simp add: stored_screenshot_try_def sel assms(5,6) norm)
  then have "fst (capture_screenshot w) = Base64 (Jpeg 85 out)"
    by (simp add: capture_screenshot_def capture_try)
  with sel out show ?thesis by auto
qed

theorem newest_screenshot_returned_witness:
  "newest \<in> set (matches_in library) \<and>
   list_all (\<lambda>g. st_mtime (snd g) \<le> st_mtime (snd newest)) (matches_in library) \<and>
   inj_on st_mtime (snd ` set (matches_in library)) \<and>
   0 < st_mtime (snd newest) \<and> Image library \<and> Image_open (snd newest) = Inr wide \<and>
   map_option snd (fst (find_latest library)) = Some (snd newest) \<and>
   fst (capture_screenshot library) =
     Base64 (Jpeg 85 \<lparr>width = 1024, height = 576, mode = ''RGB'', label = 1\<rparr>) \<and>
   linked_newest \<in> set (matches_in linked) \<and>
   \<not> distinct (map (\<lambda>g. st_mtime (snd g)) (matches_in linked)) \<and>
   inj_on st_mtime (snd ` set (matches_in linked)) \<and>
   map_option snd (fst (find_latest linked)) = Some (snd linked_newest) \<and>
   fst (capture_screenshot linked) = Base64 (Jpeg 85 small)"
proof -
  have d: "inj_on st_mtime (snd ` set (matches_in library))"
    by (simp add: matches_in_library newest_def inj_on_def)
  have h: "newest \<in> set (matches_in library)"
    "\<forall>g \<in> set (matches_in library). st_mtime (snd g) \<le> st_mtime (snd newest)"
    "inj_on st_mtime (snd ` set (matches_in library))"
    "0 < st_mtime (snd newest)" "Image library" "Image_open (snd newest) = Inr wide"
    "mode wide \<in> set jpeg_modes" "0 < width wide" "0 < height wide"
    using d
    by (simp_all add: matches_in_library)
       (simp_all add: newest_def library_def fresh_def decode_def Image_def wide_def jpeg_modes_def)
  have t: "thumbnail (key_floor_le library) (1024, 1024) wide =
      Inr \<lparr>width = 1024, height = 576, mode = ''RGB'', label = 1\<rparr>"
    by (simp add: thumbnail_def wide_def Let_def round_aspect_def)
  have d': "inj_on st_mtime (snd ` set (matches_in linked))"
    by (simp add: matches_in_linked linked_newest_def inj_on_def)
  have h': "linked_newest \<in> set (matches_in linked)"
    "\<forall>g \<in> set (matches_in linked). st_mtime (snd g) \<le> st_mtime (snd linked_newest)"
    "inj_on st_mtime (snd ` set (matches_in linked))"
    "0 < st_mtime (snd linked_newest)" "Image linked" "Image_open (snd linked_newest) = Inr small"
    "mode small \<in> set jpeg_modes" "0 < width small" "0 < height small"
    using d'
    by (simp_all add: matches_in_linked)
       (simp_all add: linked_newest_def linked_def fresh_def decode_def Image_def small_def
          jpeg_modes_def)
  have t': "thumbnail (key_floor_le linked) (1024, 1024) small = Inr small"
    by (simp add: thumbnail_def small_def)
  have nd: "\<not> distinct (map (\<lambda>g. st_mtime (snd g)) (matches_in linked))"
    by (simp add: matches_in_linked linked_newest_def)
  from newest_screenshot_returned [OF h] newest_screenshot_returned [OF h'] h h' t t' nd
  show ?thesis by (simp add: list_all_iff)
qed

text \<open>
  C3 as stated fails.  In \<open>renamed\<close> the newest file decodes to an image with an alpha
  channel; \<open>img.save\<close> raises, the handler of line 138 catches it, and the function
  returns the empty string.  And when the import of lines 12-19 failed, the guard of line
  89 is false: the newest file is found but not read.
\<close>

theorem newest_screenshot_returned_counterexample:
  "fst (find_latest renamed) = Some renamed_newest \<and> Image renamed \<and>
   Image_open (snd renamed_newest) = Inr overlay \<and>
   fst (capture_screenshot renamed) = Lit [] \<and>
   fst (find_latest (library\<lparr>imported := False\<rparr>)) = Some newest \<and>
   fst (capture_screenshot (library\<lparr>imported := False\<rparr>)) = Lit []"
proof -
  have s: "stored_screenshot_try renamed = Inl (Exception ''cannot write mode RGBA as JPEG'')"
    by (simp add: stored_screenshot_try_def find_latest_renamed)
       (simp add: renamed_newest_def renamed_def library_def fresh_def Image_def decode_def
          normalize_overlay)
  have i: "Image renamed" "Image_open (snd renamed_newest) = Inr overlay"
    by (simp_all add: renamed_newest_def renamed_def library_def fresh_def Image_def decode_def)
  have c: "fst (capture_screenshot renamed) = Lit []"
    by (simp add: capture_screenshot_def capture_try s)
  have m: "matches_in (library\<lparr>imported := False\<rparr>) = matches_in library"
    by (rule matches_in_imported)
  have f: "find_latest (library\<lparr>imported := False\<rparr>) = (Some newest, 300)"
    by (simp add: find_latest_matches m matches_in_library visit_def newest_def)
  have s': "stored_screenshot_try (library\<lparr>imported := False\<rparr>) = Inr None"
    by (simp add: stored_screenshot_try_def f Image_def)
  have x: "x11 (library\<lparr>imported := False\<rparr>) = None"
    by (simp add: x11_def x11_try_def library_def fresh_def)
  have c': "fst (capture_screenshot (library\<lparr>imported := False\<rparr>)) = Lit []"
    by (simp add: capture_screenshot_def capture_try s' x)
  show ?thesis
    by (simp add: find_latest_renamed i c f c')
qed

text \<open>
  The loop starts from \<open>latest_time = 0\<close> and compares with \<open>mtime > latest_time\<close>: a file whose
  modification time is not greater than 0 is never selected.
\<close>

lemma epoch_file_not_selected:
  "matches_in epoch = [([''.steam'', ''steam'', ''screenshots'', ''a.jpg''], File ''a.jpg'' 0 (Picture small))] \<and>
   find_latest epoch = (None, 0)"
  by (simp add: find_latest_matches scan_simps epoch_def fresh_def visit_def)

text \<open>
  C7.  When no entry below the candidate directories matches \<open>*.jpg\<close> and the \<open>import\<close>
  command is missing, runs into its timeout, or exits with a non-zero code,
  \<open>capture_screenshot\<close> returns the empty string.  The calls it made are the two
  \<open>exists()\<close> checks and the command, run with a timeout of 5.
\<close>

theorem capture_fallback_fails:
  assumes "matches_in w = []"
    and "import_tool w = Tool_missing \<or> import_tool w = Timed_out \<or>
         (\<exists>rc out. rc \<noteq> 0 \<and> import_tool w = Exited rc out)"
  shows "fst (capture_screenshot w) = Lit [] \<and>
         new_events w (snd (capture_screenshot w)) =
           [Path_exists [''.steam'', ''steam'', ''screenshots''],
            Path_exists [''.local'', ''share'', ''Steam'', ''screenshots''],
            Subprocess_run (import_command w)] \<and>
         timeout (import_command w) = 5"
proof -
  have none: "find_latest w = (None, 0)"
    by (simp add: find_latest_def foldl_scan_dir assms(1) [unfolded matches_in_def])
  have x: "x11 w = None"
    using assms(2) by (auto simp: x11_def x11_try_def)
  have st: "stored_screenshot_try w = Inr None"
    by (simp add: stored_screenshot_try_def none)
  show ?thesis
    by (simp add: capture_screenshot_def capture_try st x new_events_def capture_events_def
          screenshot_paths_def import_command_def)
qed

theorem capture_fallback_fails_witness:
  "matches_in no_match = [] \<and> import_tool no_match = Timed_out \<and>
   fst (capture_screenshot no_match) = Lit [] \<and>
   new_events no_match (snd (capture_screenshot no_match)) =
     [Path_exists [''.steam'', ''steam'', ''screenshots''],
      Path_exists [''.local'', ''share'', ''Steam'', ''screenshots''],
      Subprocess_run (import_command no_match)] \<and>
   timeout (import_command no_match) = 5"
proof -
  have h: "matches_in no_match = []"
    "import_tool no_match = Tool_missing \<or> import_tool no_match = Timed_out \<or>
       (\<exists>rc out. rc \<noteq> 0 \<and> import_tool no_match = Exited rc out)"
    by (simp_all add: scan_simps no_match_def fresh_def)
  have "import_tool no_match = Timed_out" by (simp add: no_match_def fresh_def)
  with capture_fallback_fails [OF h] h(1) show ?thesis by simp
qed

section \<open>\<open>request_quest_help\<close>: properties\<close>

text \<open>
  C6.  When \<open>capture_screenshot\<close> returns the empty string, \<open>request_quest_help\<close> returns
  the failure dictionary with the capture message and makes no remote call.
\<close>

theorem no_screenshot_no_call:
  "\<not> nonempty (fst (capture_screenshot w)) \<Longrightarrow>
   fst (request_quest_help w) = Failure capture_failed_message \<and>
   filter is_chat (new_events w (snd (request_quest_help w))) = []"
proof -
  assume empty: "\<not> nonempty (fst (capture_screenshot w))"
  obtain s w1 where cap: "capture_screenshot w = (s, w1)" by (cases "capture_screenshot w")
  have w1: "w1 = w\<lparr>trace := trace w @ capture_events w\<rparr>"
    using capture_world [of w] cap by simp
  have run: "request_quest_help w = (Failure capture_failed_message, w1)"
    using empty by (simp add: request_quest_help_def cap)
  show ?thesis
    using capture_events_no_chat [of w] by (simp add: run new_events_def w1)
qed

theorem no_screenshot_no_call_witness:
  "\<not> nonempty (fst (capture_screenshot configured)) \<and>
   fst (request_quest_help configured) = Failure capture_failed_message \<and>
   filter is_chat (new_events configured (snd (request_quest_help configured))) = []"
proof -
  have f: "find_latest configured = (None, 0)"
    by (simp add: find_latest_def screenshot_paths_def scan_dir_def configured_def fresh_def)
  have s: "stored_screenshot_try configured = Inr None"
    by (simp add: stored_screenshot_try_def f)
  have x: "x11 configured = None"
    by (simp add: x11_def x11_try_def configured_def fresh_def)
  have h: "\<not> nonempty (fst (capture_screenshot configured))"
    by (simp add: capture_screenshot_def capture_try s x)
  from no_screenshot_no_call [OF h] h show ?thesis by simp
qed

lemma get_quest_help_no_key:
  "openai_client w = None \<Longrightarrow> \<not> truthy (get_api_key w) \<Longrightarrow>
   get_quest_help s w = (Failure no_key_message, w)"
  by (simp add: get_quest_help_def get_quest_help_try_def ensure_client_def Let_def)

text \<open>
  C1, as the code has it.  With no client and no stored key, \<open>request_quest_help\<close>
  captures the screenshot first.  It returns the capture failure when the screenshot is
  empty and the credential failure otherwise; the world after it is the world after the
  capture, so the calls of the capture were made and no remote call was.
\<close>

theorem capture_precedes_credential_check:
  assumes "openai_client w = None" and "\<not> truthy (get_api_key w)"
  shows "fst (request_quest_help w) =
           Failure (if nonempty (fst (capture_screenshot w)) then no_key_message
                    else capture_failed_message) \<and>
         snd (request_quest_help w) = snd (capture_screenshot w) \<and>
         filter is_capture (new_events w (snd (request_quest_help w))) \<noteq> [] \<and>
         filter is_chat (new_events w (snd (request_quest_help w))) = []"
proof -
  obtain s w1 where cap: "capture_screenshot w = (s, w1)" by (cases "capture_screenshot w")
  have w1: "w1 = w\<lparr>trace := trace w @ capture_events w\<rparr>"
    using capture_world [of w] cap by simp
  have nk: "openai_client w1 = None" "\<not> truthy (get_api_key w1)"
    using assms by (simp_all add: w1 get_api_key_trace)
  have run: "request_quest_help w =
      (Failure (if nonempty s then no_key_message else capture_failed_message), w1)"
    using get_quest_help_no_key [OF nk] by (simp add: request_quest_help_def cap)
  show ?thesis
    using capture_events_no_chat [of w] capture_events_capture [of w]
    by (simp add: run cap new_events_def w1)
qed

theorem capture_precedes_credential_check_witness:
  "openai_client library = None \<and> \<not> truthy (get_api_key library) \<and>
   nonempty (fst (capture_screenshot library)) \<and>
   fst (request_quest_help library) = Failure no_key_message \<and>
   snd (request_quest_help library) = snd (capture_screenshot library) \<and>
   filter is_capture (new_events library (snd (request_quest_help library))) \<noteq> [] \<and>
   filter is_chat (new_events library (snd (request_quest_help library))) = []"
proof -
  have h: "openai_client library = None" "\<not> truthy (get_api_key library)"
    by (simp_all add: library_def fresh_def get_api_key_def get_api_key_try_def)
  have s: "stored_screenshot_try library =
      Inr (Some (Base64 (Jpeg 85 \<lparr>width = 1024, height = 576, mode = ''RGB'', label = 1\<rparr>)))"
    by (simp add: stored_screenshot_try_def find_latest_library)
       (simp add: newest_def library_def fresh_def decode_def Image_def normalize_wide)
  have c: "nonempty (fst (capture_screenshot library))"
    by (simp add: capture_screenshot_def capture_try s)
  from capture_precedes_credential_check [OF h] h c show ?thesis by auto
qed

text \<open>
  C1 as stated fails: with no key and no screenshot, the function looks for a screenshot,
  runs the \<open>import\<close> command, and returns the capture failure, not the credential
  failure.
\<close>

theorem capture_precedes_credential_check_counterexample:
  "openai_client fresh = None \<and> get_api_key fresh = JStr [] \<and>
   fst (request_quest_help fresh) = Failure capture_failed_message \<and>
   fst (request_quest_help fresh) \<noteq> Failure no_key_message \<and>
   new_events fresh (snd (request_quest_help fresh)) =
     [Path_exists [''.steam'', ''steam'', ''screenshots''],
      Path_exists [''.local'', ''share'', ''Steam'', ''screenshots''],
      Subprocess_run (import_command fresh)]"
proof -
  have f: "find_latest fresh = (None, 0)"
    by (simp add: find_latest_def screenshot_paths_def scan_dir_def fresh_def)
  have s: "stored_screenshot_try fresh = Inr None"
    by (simp add: stored_screenshot_try_def f)
  have x: "x11 fresh = None"
    by (simp add: x11_def x11_try_def fresh_def)
  have c: "capture_screenshot fresh = (Lit [], fresh\<lparr>trace := trace fresh @ capture_events fresh\<rparr>)"
    by (simp add: capture_screenshot_def capture_try s x)
  have r: "request_quest_help fresh =
      (Failure capture_failed_message, fresh\<lparr>trace := trace fresh @ capture_events fresh\<rparr>)"
    by (simp add: request_quest_help_def c)
  have m: "capture_failed_message \<noteq> no_key_message"
    by (simp add: capture_failed_message_def no_key_message_def)
  have k: "openai_client fresh = None" "get_api_key fresh = JStr []"
    by (simp_all add: fresh_def get_api_key_def get_api_key_try_def)
  show ?thesis
    by (simp add: r m k new_events_def capture_events_def s screenshot_paths_def)
qed

end
